theory Spec2Isabelle
  imports Main "HOL-Library.Word"
begin

section \<open>JavaScript values and strings\<close>

text \<open>
  A JavaScript string is a sequence of UTF-16 code units, and \<open>length\<close>, \<open>slice\<close>,
  \<open>startsWith\<close> and \<open>includes\<close> count and compare code units. The ellipsis U+2026
  appended by the request logger is one code unit.
\<close>

type_synonym jsstring = "16 word list"

definition js :: "string \<Rightarrow> jsstring" where
  "js s = map (\<lambda>c. of_nat (of_char c)) s"

definition ellipsis :: "16 word" where
  "ellipsis = 0x2026"

text \<open>\<open>s.startsWith(p)\<close> and \<open>s.includes(p)\<close>.\<close>

definition startsWith :: "jsstring \<Rightarrow> jsstring \<Rightarrow> bool" where
  "startsWith s p = (take (length p) s = p)"

fun str_includes :: "jsstring \<Rightarrow> jsstring \<Rightarrow> bool" where
  "str_includes [] p = (p = [])"
| "str_includes (c # cs) p = (startsWith (c # cs) p \<or> str_includes cs p)"

text \<open>
  Number-to-string conversion of a template literal, for integral numbers (status codes,
  millisecond differences, port numbers): the decimal digits, with a minus sign when
  negative.
\<close>

fun digits :: "nat \<Rightarrow> jsstring" where
  "digits n = (if n < 10 then [of_nat (48 + n)]
               else digits (n div 10) @ [of_nat (48 + n mod 10)])"

declare digits.simps [simp del]

definition number_to_string :: "int \<Rightarrow> jsstring" where
  "number_to_string i = (if i < 0 then js ''-'' @ digits (nat (- i)) else digits (nat i))"

text \<open>
  The values a handler can pass to \<open>res.json\<close> and the error values a middleware can
  receive. Numbers are the integral ones. An object is the list of its enumerable
  properties in enumeration order, with distinct keys. \<open>JBigInt\<close> and \<open>JFunction\<close> are
  the values \<open>JSON.stringify\<close> cannot render: it throws on the first and returns
  \<open>undefined\<close> for the second.
\<close>

datatype jsvalue =
    JUndefined
  | JNull
  | JBool bool
  | JNum int
  | JBigInt int
  | JStr jsstring
  | JArr "jsvalue list"
  | JObj "(jsstring \<times> jsvalue) list"
  | JFunction

text \<open>
  The exceptions of the model: the \<open>TypeError\<close> of a property read on \<open>null\<close> or
  \<open>undefined\<close> and of a failed serialization, and \<open>InvalidStatusCode\<close>, the error with
  which the response object refuses a status.
\<close>

datatype exn = TypeError | InvalidStatusCode

text \<open>Truthiness, as tested by \<open>if (v)\<close> and \<open>v || d\<close>.\<close>

fun truthy :: "jsvalue \<Rightarrow> bool" where
  "truthy JUndefined = False"
| "truthy JNull = False"
| "truthy (JBool b) = b"
| "truthy (JNum n) = (n \<noteq> 0)"
| "truthy (JBigInt n) = (n \<noteq> 0)"
| "truthy (JStr s) = (s \<noteq> [])"
| "truthy (JArr xs) = True"
| "truthy (JObj ps) = True"
| "truthy JFunction = True"

definition js_or :: "jsvalue \<Rightarrow> jsvalue \<Rightarrow> jsvalue" where
  "js_or a b = (if truthy a then a else b)"

text \<open>
  Property read \<open>v.k\<close> for the property names this server reads (\<open>status\<close>,
  \<open>statusCode\<close>, \<open>message\<close>, \<open>stack\<close>, \<open>code\<close>): a \<open>TypeError\<close> on \<open>null\<close> and
  \<open>undefined\<close>, the property's value on an object that has it, \<open>undefined\<close> otherwise.
\<close>

fun get_prop :: "jsvalue \<Rightarrow> jsstring \<Rightarrow> exn + jsvalue" where
  "get_prop JUndefined k = Inl TypeError"
| "get_prop JNull k = Inl TypeError"
| "get_prop (JObj ps) k = Inr (case map_of ps k of None \<Rightarrow> JUndefined | Some v \<Rightarrow> v)"
| "get_prop v k = Inr JUndefined"

subsection \<open>\<open>JSON.stringify\<close>\<close>

definition hex_digit :: "nat \<Rightarrow> 16 word" where
  "hex_digit d = (if d < 10 then of_nat (48 + d) else of_nat (87 + d))"

definition unicode_escape :: "16 word \<Rightarrow> jsstring" where
  "unicode_escape c =
     (let n = unat c in
      [0x5C, 0x75] @ [hex_digit (n div 4096), hex_digit (n div 256 mod 16),
                       hex_digit (n div 16 mod 16), hex_digit (n mod 16)])"

definition is_high_surrogate :: "16 word \<Rightarrow> bool" where
  "is_high_surrogate c = (0xD800 \<le> c \<and> c \<le> 0xDBFF)"

definition is_low_surrogate :: "16 word \<Rightarrow> bool" where
  "is_low_surrogate c = (0xDC00 \<le> c \<and> c \<le> 0xDFFF)"

definition escape_unit :: "16 word \<Rightarrow> jsstring" where
  "escape_unit c =
     (if c = 0x08 then [0x5C, 0x62]
      else if c = 0x09 then [0x5C, 0x74]
      else if c = 0x0A then [0x5C, 0x6E]
      else if c = 0x0C then [0x5C, 0x66]
      else if c = 0x0D then [0x5C, 0x72]
      else if c = 0x22 then [0x5C, 0x22]
      else if c = 0x5C then [0x5C, 0x5C]
      else if c < 0x20 \<or> is_high_surrogate c \<or> is_low_surrogate c then unicode_escape c
      else [c])"

text \<open>A surrogate pair is copied; a surrogate that reaches \<open>escape_unit\<close> is unpaired.\<close>

fun quote_units :: "jsstring \<Rightarrow> jsstring" where
  "quote_units [] = []"
| "quote_units [c] = escape_unit c"
| "quote_units (c # d # cs) =
     (if is_high_surrogate c \<and> is_low_surrogate d then c # d # quote_units cs
      else escape_unit c @ quote_units (d # cs))"

definition quote_json_string :: "jsstring \<Rightarrow> jsstring" where
  "quote_json_string s = [0x22] @ quote_units s @ [0x22]"

fun join_comma :: "jsstring list \<Rightarrow> jsstring" where
  "join_comma [] = []"
| "join_comma [x] = x"
| "join_comma (x # y # ys) = x @ js '','' @ join_comma (y # ys)"

text \<open>
  \<open>JSON.stringify(v)\<close> with no replacer and no indentation: \<open>Inl TypeError\<close> when it
  throws, \<open>Inr None\<close> when it returns \<open>undefined\<close>, \<open>Inr (Some text)\<close> otherwise. In an
  array an unrenderable element becomes \<open>null\<close>; in an object its property is left out.
\<close>

fun JSON_stringify :: "jsvalue \<Rightarrow> exn + jsstring option"
  and stringify_elements :: "jsvalue list \<Rightarrow> exn + jsstring list"
  and stringify_properties :: "(jsstring \<times> jsvalue) list \<Rightarrow> exn + jsstring list"
where
  "JSON_stringify JUndefined = Inr None"
| "JSON_stringify JFunction = Inr None"
| "JSON_stringify JNull = Inr (Some (js ''null''))"
| "JSON_stringify (JBool b) = Inr (Some (if b then js ''true'' else js ''false''))"
| "JSON_stringify (JNum n) = Inr (Some (number_to_string n))"
| "JSON_stringify (JBigInt n) = Inl TypeError"
| "JSON_stringify (JStr s) = Inr (Some (quote_json_string s))"
| "JSON_stringify (JArr vs) =
     (case stringify_elements vs of
        Inl e \<Rightarrow> Inl e
      | Inr parts \<Rightarrow> Inr (Some (js ''['' @ join_comma parts @ js '']'')))"
| "JSON_stringify (JObj ps) =
     (case stringify_properties ps of
        Inl e \<Rightarrow> Inl e
      | Inr parts \<Rightarrow> Inr (Some (js ''{'' @ join_comma parts @ js ''}'')))"
| "stringify_elements [] = Inr []"
| "stringify_elements (v # vs) =
     (case JSON_stringify v of
        Inl e \<Rightarrow> Inl e
      | Inr r \<Rightarrow>
          (case stringify_elements vs of
             Inl e \<Rightarrow> Inl e
           | Inr rs \<Rightarrow> Inr ((case r of None \<Rightarrow> js ''null'' | Some t \<Rightarrow> t) # rs)))"
| "stringify_properties [] = Inr []"
| "stringify_properties (p # ps) =
     (case JSON_stringify (snd p) of
        Inl e \<Rightarrow> Inl e
      | Inr r \<Rightarrow>
          (case stringify_properties ps of
             Inl e \<Rightarrow> Inl e
           | Inr rs \<Rightarrow>
               Inr (case r of
                      None \<Rightarrow> rs
                    | Some t \<Rightarrow> (quote_json_string (fst p) @ js '':'' @ t) # rs)))"

text \<open>A value inside a template literal: \<open>undefined\<close> prints as the word.\<close>

definition template :: "jsstring option \<Rightarrow> jsstring" where
  "template v = (case v of None \<Rightarrow> js ''undefined'' | Some s \<Rightarrow> s)"

section \<open>Observable actions\<close>

text \<open>
  What the server does to the outside, in the order it does it. \<open>Log\<close> is a call of the
  log sink \<open>log\<close> imported from the development-server module; \<open>ConsoleLog\<close> and
  \<open>ConsoleError\<close> are the console calls; \<open>ResStatus\<close> and \<open>OriginalResJson\<close> are the
  calls on the response object that reach the framework; \<open>SetTimeout\<close>, \<open>ServerClose\<close>
  and \<open>ServerListen\<close> are the calls on the timer and the server handle; \<open>Uncaught\<close> is an
  exception leaving an event listener or a middleware.
\<close>

datatype effect =
    Log jsstring
  | ConsoleLog jsstring
  | ConsoleError jsstring jsvalue
  | ResStatus jsvalue
  | OriginalResJson jsvalue
  | SetTimeout nat
  | ServerClose
  | ServerListen int jsstring
  | Uncaught exn

fun is_Log :: "effect \<Rightarrow> bool" where
  "is_Log (Log l) = True"
| "is_Log e = False"

fun is_console :: "effect \<Rightarrow> bool" where
  "is_console (ConsoleLog l) = True"
| "is_console (ConsoleError l v) = True"
| "is_console e = False"

fun is_ConsoleLog :: "effect \<Rightarrow> bool" where
  "is_ConsoleLog (ConsoleLog l) = True"
| "is_ConsoleLog e = False"

fun is_ServerListen :: "effect \<Rightarrow> bool" where
  "is_ServerListen (ServerListen p h) = True"
| "is_ServerListen e = False"

section \<open>Request logging middleware\<close>

text \<open>
  The parts of the inbound request the middleware reads: \<open>req.method\<close>, \<open>req.path\<close>,
  \<open>req.url\<close> and the headers \<open>origin\<close>, \<open>user-agent\<close> and \<open>x-request-id\<close>; a header that
  was not sent reads \<open>undefined\<close>, here \<open>None\<close>.
\<close>

record request =
  "method" :: jsstring
  path :: jsstring
  url :: jsstring
  origin :: "jsstring option"
  userAgent :: "jsstring option"
  requestId :: "jsstring option"

text \<open>The variables the middleware's closures share for one request.\<close>

record closure =
  start :: int
  capturedJsonResponse :: jsvalue

definition trace_text :: "request \<Rightarrow> jsstring" where
  "trace_text req =
     [0xD83D, 0xDD0D] @ js '' [REQUEST-TRACE] Sick food request - Origin: ''
       @ template (origin req) @ js '', User-Agent: ''
       @ template (map_option (take 50) (userAgent req)) @ js ''...''"

text \<open>
  The middleware body up to \<open>next()\<close>: it reads the clock, starts with nothing captured,
  and prints the request trace for a path that contains the traced route.
\<close>

definition middleware :: "request \<Rightarrow> int \<Rightarrow> closure \<times> effect list" where
  "middleware req now =
     (\<lparr>start = now, capturedJsonResponse = JUndefined\<rparr>,
      if str_includes (path req) (js ''/api/amenities/sick-food'')
      then [ConsoleLog (trace_text req)] else [])"

text \<open>The replacement \<open>res.json\<close>: it stores the body and forwards the call.\<close>

definition res_json :: "closure \<Rightarrow> jsvalue \<Rightarrow> closure \<times> effect list" where
  "res_json c bodyJson = (c\<lparr>capturedJsonResponse := bodyJson\<rparr>, [OriginalResJson bodyJson])"

text \<open>The pieces of the log line, in the order the \<open>finish\<close> listener builds them.\<close>

definition base_line :: "request \<Rightarrow> int \<Rightarrow> int \<Rightarrow> jsstring" where
  "base_line req statusCode duration =
     method req @ js '' '' @ path req @ js '' '' @ number_to_string statusCode
       @ js '' in '' @ number_to_string duration @ js ''ms''"

definition body_segment :: "jsvalue \<Rightarrow> exn + jsstring" where
  "body_segment captured =
     (if truthy captured then
        (case JSON_stringify captured of
           Inl e \<Rightarrow> Inl e
         | Inr r \<Rightarrow> Inr (js '' :: '' @ template r))
      else Inr [])"

definition id_segment :: "jsstring option \<Rightarrow> jsstring" where
  "id_segment rid =
     (case rid of
        None \<Rightarrow> []
      | Some i \<Rightarrow> if i \<noteq> [] then js '' ['' @ i @ js '']'' else [])"

definition truncate_line :: "jsstring \<Rightarrow> jsstring" where
  "truncate_line logLine =
     (if length logLine > 100 then take 99 logLine @ [ellipsis] else logLine)"

text \<open>
  The \<open>finish\<close> listener, given the response's status code and the clock: \<open>Inl\<close> when an
  exception leaves it, else the actions it performed.
\<close>

definition on_finish :: "request \<Rightarrow> closure \<Rightarrow> int \<Rightarrow> int \<Rightarrow> exn + effect list" where
  "on_finish req c statusCode now =
     (let duration = now - start c in
      if startsWith (path req) (js ''/api'') then
        (case body_segment (capturedJsonResponse c) of
           Inl e \<Rightarrow> Inl e
         | Inr seg \<Rightarrow>
             Inr [Log (truncate_line
                         (base_line req statusCode duration @ seg @ id_segment (requestId req)))])
      else Inr [])"

text \<open>
  A request that has reached the logging middleware, from there to the \<open>finish\<close> event:
  the middleware runs, \<open>res.json\<close> is called with each of \<open>bodies\<close> in turn (by the route
  handler or, after a failure, by the error middleware; usually no call or one), the
  response finishes with \<open>statusCode\<close>. The result keeps apart what happened before the
  response finished and what the \<open>finish\<close> listener did. Whether a request reaches the
  logging middleware at all is decided before it, see \<open>handle_request\<close> below.
\<close>

fun handler_calls :: "closure \<Rightarrow> jsvalue list \<Rightarrow> closure \<times> effect list" where
  "handler_calls c [] = (c, [])"
| "handler_calls c (b # bs) =
     (let (c1, e1) = res_json c b; (c2, e2) = handler_calls c1 bs in (c2, e1 @ e2))"

definition observe ::
  "request \<Rightarrow> int \<Rightarrow> jsvalue list \<Rightarrow> int \<Rightarrow> int \<Rightarrow> effect list \<times> (exn + effect list)" where
  "observe req t0 bodies statusCode t1 =
     (let (c0, e0) = middleware req t0; (c1, e1) = handler_calls c0 bodies
      in (e0 @ e1, on_finish req c1 statusCode t1))"

section \<open>Error middleware\<close>

text \<open>
  The response object belongs to the framework. Of \<open>res.status(status).json(body)\<close> the
  model keeps that the pair is refused with an exception when the status is not an
  integer from 100 to 999 or when the body cannot be serialized, and is sent otherwise.
  A status outside the integers (a numeric string, say), which some versions of the
  framework convert before they check it, is taken as refused; no property below speaks
  of such a status.
\<close>

definition status_accepted :: "jsvalue \<Rightarrow> bool" where
  "status_accepted v = (case v of JNum n \<Rightarrow> 100 \<le> n \<and> n \<le> 999 | _ \<Rightarrow> False)"

definition send_refused :: "jsvalue \<Rightarrow> jsvalue \<Rightarrow> exn option" where
  "send_refused status body =
     (if status_accepted status then
        (case JSON_stringify body of Inl e \<Rightarrow> Some e | Inr t \<Rightarrow> None)
      else Some InvalidStatusCode)"

text \<open>
  The four-argument middleware installed after the routes. \<open>json\<close> is the \<open>res.json\<close> the
  response object carries when the middleware runs. The result is \<open>Inl\<close> when an
  exception leaves the middleware: a property read on a \<open>null\<close> error value, or the
  response object refusing what line 89 hands it.
\<close>

definition error_middleware_with ::
  "(jsvalue \<Rightarrow> 'r \<times> effect list) \<Rightarrow> jsvalue \<Rightarrow> request \<Rightarrow> exn + 'r \<times> effect list" where
  "error_middleware_with json err req =
     (case get_prop err (js ''status'') of
        Inl e \<Rightarrow> Inl e
      | Inr st \<Rightarrow>
     (case get_prop err (js ''statusCode'') of
        Inl e \<Rightarrow> Inl e
      | Inr sc \<Rightarrow>
     (case get_prop err (js ''message'') of
        Inl e \<Rightarrow> Inl e
      | Inr msg \<Rightarrow>
     (case get_prop err (js ''stack'') of
        Inl e \<Rightarrow> Inl e
      | Inr stack \<Rightarrow>
          (let status = js_or (js_or st sc) (JNum 500);
               message = js_or msg (JStr (js ''Internal Server Error''));
               (r, sent) = json (JObj [(js ''message'', message)])
           in case send_refused status (JObj [(js ''message'', message)]) of
                Some e \<Rightarrow> Inl e
              | None \<Rightarrow>
                  Inr (r,
                       [ConsoleError (js ''Server error:'')
                          (JObj [(js ''status'', status), (js ''message'', msg),
                                 (js ''stack'', stack), (js ''url'', JStr (url req)),
                                 (js ''method'', JStr (method req))]),
                        ResStatus status] @ sent))))))"

text \<open>
  For a request that went through the logging middleware, \<open>res.json\<close> is the replacement
  that middleware installed.
\<close>

definition error_middleware ::
  "jsvalue \<Rightarrow> request \<Rightarrow> closure \<Rightarrow> exn + closure \<times> effect list" where
  "error_middleware err req c = error_middleware_with (res_json c) err req"

section \<open>A request through the middleware stack\<close>

text \<open>
  The JSON and URL-encoded body parsers are installed before the logging middleware.
  A request whose body they reject (malformed, too large) is passed on with an error
  value: the logging middleware and the routes are skipped, no \<open>finish\<close> listener is
  registered, and the error middleware answers through the response object's own
  \<open>res.json\<close>. Every other request reaches the logging middleware.
\<close>

datatype body_parse = BodyAccepted | BodyRejected jsvalue

definition original_res_json :: "jsvalue \<Rightarrow> unit \<times> effect list" where
  "original_res_json bodyJson = ((), [OriginalResJson bodyJson])"

definition handle_request ::
  "request \<Rightarrow> body_parse \<Rightarrow> int \<Rightarrow> jsvalue list \<Rightarrow> int \<Rightarrow> int
     \<Rightarrow> effect list \<times> (exn + effect list)" where
  "handle_request req parse t0 bodies statusCode t1 =
     (case parse of
        BodyAccepted \<Rightarrow> observe req t0 bodies statusCode t1
      | BodyRejected err \<Rightarrow>
          (case error_middleware_with original_res_json err req of
             Inl e \<Rightarrow> ([Uncaught e], Inr [])
           | Inr (u, effs) \<Rightarrow> (effs, Inr [])))"

section \<open>Listener start-up\<close>

definition host :: jsstring where
  "host = js ''0.0.0.0''"

definition serving_line :: "int \<Rightarrow> jsstring" where
  "serving_line port = js ''serving on port '' @ number_to_string port"

definition retry_notice :: "int \<Rightarrow> jsstring" where
  "retry_notice port = js ''Port '' @ number_to_string port @ js '' is busy, retrying in 1 second...''"

text \<open>The \<open>error\<close> listener of the server handle, and the callback it gives the timer.\<close>

definition server_on_error :: "int \<Rightarrow> jsvalue \<Rightarrow> exn + effect list" where
  "server_on_error port err =
     (case get_prop err (js ''code'') of
        Inl e \<Rightarrow> Inl e
      | Inr code \<Rightarrow>
          if code = JStr (js ''EADDRINUSE'')
          then Inr [ConsoleLog (retry_notice port), SetTimeout 1000]
          else Inr [ConsoleError (js ''Server error:'') err])"

definition retry_callback :: "int \<Rightarrow> effect list" where
  "retry_callback port = [ServerClose, ServerListen port host]"

text \<open>
  The environment decides how each \<open>listen\<close> call ends: the server emits \<open>listening\<close>, or
  it emits \<open>error\<close> with an error value. \<open>listener port cbs script\<close> is what the process
  does while the outcomes of \<open>script\<close> arrive one per \<open>listen\<close> call, \<open>cbs\<close> being the
  number of \<open>listening\<close> callbacks registered so far (every \<open>listen(port, host, cb)\<close>
  registers its callback for the next \<open>listening\<close> event, and a failed attempt leaves it
  registered). A timer the \<open>error\<close> listener has set fires and runs \<open>retry_callback\<close>.
  When the script ends the last \<open>listen\<close> call is still pending.
\<close>

datatype listen_outcome = Listening | ErrorEvent jsvalue

fun listener :: "int \<Rightarrow> nat \<Rightarrow> listen_outcome list \<Rightarrow> effect list" where
  "listener port cbs [] = []"
| "listener port cbs (Listening # script) = replicate cbs (Log (serving_line port))"
| "listener port cbs (ErrorEvent err # script) =
     (case server_on_error port err of
        Inl e \<Rightarrow> [Uncaught e]
      | Inr effs \<Rightarrow>
          effs @ (if SetTimeout 1000 \<in> set effs
                  then retry_callback port @ listener port (Suc cbs) script
                  else []))"

definition startup :: "int \<Rightarrow> listen_outcome list \<Rightarrow> effect list" where
  "startup port script = ServerListen port host # listener port 1 script"

text \<open>The retries of a run: the \<open>listen\<close> calls after the first.\<close>

definition retries :: "effect list \<Rightarrow> nat" where
  "retries effs = length (filter is_ServerListen effs) - 1"

definition address_in_use :: "listen_outcome \<Rightarrow> bool" where
  "address_in_use out =
     (case out of
        Listening \<Rightarrow> False
      | ErrorEvent err \<Rightarrow> get_prop err (js ''code'') = Inr (JStr (js ''EADDRINUSE'')))"

section \<open>Sample requests and errors\<close>

text \<open>Concrete inputs on which the properties below are evaluated.\<close>

definition widgets_request :: request where
  "widgets_request =
     \<lparr>method = js ''POST'', path = js ''/api/widgets'', url = js ''/api/widgets'',
      origin = None, userAgent = None, requestId = Some (js ''abc123'')\<rparr>"

definition count_request :: request where
  "count_request =
     \<lparr>method = js ''GET'', path = js ''/api/count'', url = js ''/api/count'',
      origin = None, userAgent = None, requestId = Some []\<rparr>"

definition sick_food_request :: request where
  "sick_food_request =
     \<lparr>method = js ''GET'', path = js ''/api/amenities/sick-food'',
      url = js ''/api/amenities/sick-food'',
      origin = None, userAgent = Some (js ''curl/8.0''), requestId = None\<rparr>"

definition mirror_request :: request where
  "mirror_request =
     \<lparr>method = js ''GET'', path = js ''/v1/api/amenities/sick-food'',
      url = js ''/v1/api/amenities/sick-food'',
      origin = None, userAgent = Some (js ''curl/8.0''), requestId = None\<rparr>"

definition long_body :: jsvalue where
  "long_body =
     JObj [(js ''id'', JNum 7),
           (js ''name'', JStr (js ''a widget with a deliberately long descriptive name'')),
           (js ''tags'', JArr [JStr (js ''alpha''), JStr (js ''beta'')])]"

definition not_found_error :: jsvalue where
  "not_found_error =
     JObj [(js ''status'', JNum 404), (js ''message'', JStr (js ''not found'')),
           (js ''stack'', JStr (js ''Error: not found at lookup (routes.ts:41:11)''))]"

definition conflicting_error :: jsvalue where
  "conflicting_error =
     JObj [(js ''status'', JNum 404), (js ''statusCode'', JNum 503),
           (js ''message'', JStr (js ''gone''))]"

definition malformed_body_error :: jsvalue where
  "malformed_body_error =
     JObj [(js ''status'', JNum 400), (js ''statusCode'', JNum 400),
           (js ''message'', JStr (js ''Unexpected end of JSON input'')),
           (js ''stack'', JStr (js ''SyntaxError: Unexpected end of JSON input'')),
           (js ''type'', JStr (js ''entity.parse.failed''))]"

definition falsy_error :: jsvalue where
  "falsy_error = JObj [(js ''status'', JNum 0), (js ''message'', JStr [])]"


section \<open>Evaluating strings\<close>

lemma js_simps: "js [] = []" "js (c # cs) = of_nat (of_char c) # js cs"
  by (simp_all add: js_def)

lemma js_append: "js a @ js b = js (a @ b)"
  by (simp add: js_def)

lemmas eval_defs = startsWith_def js_simps number_to_string_def digits.simps
  quote_json_string_def escape_unit_def is_high_surrogate_def is_low_surrogate_def

section \<open>Properties of the error middleware\<close>

lemma get_prop_total:
  assumes "get_prop err k = Inr v"
  shows "\<exists>w. get_prop err k' = Inr w"
  using assms by (cases err) simp_all

lemma error_middleware_with_eq:
  assumes "get_prop err (js ''status'') = Inr st"
      and "get_prop err (js ''statusCode'') = Inr sc"
      and "get_prop err (js ''message'') = Inr msg"
      and "get_prop err (js ''stack'') = Inr stack"
      and "json (JObj [(js ''message'', js_or msg (JStr (js ''Internal Server Error'')))]) =
             (r, sent)"
  shows "error_middleware_with json err req =
     (case send_refused (js_or (js_or st sc) (JNum 500))
             (JObj [(js ''message'', js_or msg (JStr (js ''Internal Server Error'')))]) of
        Some e \<Rightarrow> Inl e
      | None \<Rightarrow>
          Inr (r,
               [ConsoleError (js ''Server error:'')
                  (JObj [(js ''status'', js_or (js_or st sc) (JNum 500)), (js ''message'', msg),
                         (js ''stack'', stack), (js ''url'', JStr (url req)),
                         (js ''method'', JStr (method req))]),
                ResStatus (js_or (js_or st sc) (JNum 500))] @ sent))"
  using assms by (simp add: error_middleware_with_def Let_def)

lemma error_middleware_eq:
  assumes "get_prop err (js ''status'') = Inr st"
      and "get_prop err (js ''statusCode'') = Inr sc"
      and "get_prop err (js ''message'') = Inr msg"
      and "get_prop err (js ''stack'') = Inr stack"
      and "send_refused (js_or (js_or st sc) (JNum 500))
             (JObj [(js ''message'', js_or msg (JStr (js ''Internal Server Error'')))]) = None"
  shows "error_middleware err req c =
     Inr (c\<lparr>capturedJsonResponse :=
              JObj [(js ''message'', js_or msg (JStr (js ''Internal Server Error'')))]\<rparr>,
          [ConsoleError (js ''Server error:'')
             (JObj [(js ''status'', js_or (js_or st sc) (JNum 500)), (js ''message'', msg),
                    (js ''stack'', stack), (js ''url'', JStr (url req)),
                    (js ''method'', JStr (method req))]),
           ResStatus (js_or (js_or st sc) (JNum 500)),
           OriginalResJson (JObj [(js ''message'', js_or msg (JStr (js ''Internal Server Error'')))])])"
  unfolding error_middleware_def
  by (simp add: error_middleware_with_eq [OF assms(1-4), where json = "res_json c"]
        res_json_def assms(5))

lemma send_accepted:
  assumes "status_accepted status" and "JSON_stringify body = Inr t"
  shows "send_refused status body = None"
  using assms by (simp add: send_refused_def)

lemma error_middleware_with_original:
  assumes "error_middleware_with original_res_json err req = Inr (u, effs)"
  shows "filter is_Log effs = [] \<and> filter is_ConsoleLog effs = []"
  using assms
  by (auto simp: error_middleware_with_def original_res_json_def Let_def
           split: sum.splits option.splits)

lemma handle_request_rejected:
  "filter is_Log (fst (handle_request req (BodyRejected err) t0 bodies statusCode t1)) = []
   \<and> filter is_ConsoleLog (fst (handle_request req (BodyRejected err) t0 bodies statusCode t1)) = []
   \<and> snd (handle_request req (BodyRejected err) t0 bodies statusCode t1) = Inr []"
proof (cases "error_middleware_with original_res_json err req")
  case (Inl e)
  then show ?thesis by (simp add: handle_request_def)
next
  case (Inr p)
  obtain u effs where p: "p = (u, effs)" by (cases p)
  with Inr error_middleware_with_original [of err req u effs] show ?thesis
    by (simp add: handle_request_def)
qed

lemma stringify_not_found:
  \<open>JSON_stringify (JObj [(js ''message'', JStr (js ''not found''))]) =
     Inr (Some (js ''{"message":"not found"}''))\<close>
  by (simp add: eval_defs)

lemma stringify_internal:
  \<open>JSON_stringify (JObj [(js ''message'', JStr (js ''Internal Server Error''))]) =
     Inr (Some (js ''{"message":"Internal Server Error"}''))\<close>
  by (simp add: eval_defs)

lemma stringify_malformed:
  \<open>JSON_stringify (JObj [(js ''message'', JStr (js ''Unexpected end of JSON input''))]) =
     Inr (Some (js ''{"message":"Unexpected end of JSON input"}''))\<close>
  by (simp add: eval_defs)

lemma malformed_props:
  "get_prop malformed_body_error (js ''status'') = Inr (JNum 400)"
  "get_prop malformed_body_error (js ''statusCode'') = Inr (JNum 400)"
  "get_prop malformed_body_error (js ''message'') = Inr (JStr (js ''Unexpected end of JSON input''))"
  "get_prop malformed_body_error (js ''stack'') =
     Inr (JStr (js ''SyntaxError: Unexpected end of JSON input''))"
  by (simp_all add: malformed_body_error_def js_simps)

lemma malformed_body_run:
  "handle_request widgets_request (BodyRejected malformed_body_error) 1000 [] 400 1003 =
     ([ConsoleError (js ''Server error:'')
         (JObj [(js ''status'', JNum 400),
                (js ''message'', JStr (js ''Unexpected end of JSON input'')),
                (js ''stack'', JStr (js ''SyntaxError: Unexpected end of JSON input'')),
                (js ''url'', JStr (js ''/api/widgets'')),
                (js ''method'', JStr (js ''POST''))]),
       ResStatus (JNum 400),
       OriginalResJson (JObj [(js ''message'', JStr (js ''Unexpected end of JSON input''))])],
      Inr [])"
proof -
  have ne: "js ''Unexpected end of JSON input'' \<noteq> []" by (simp add: js_simps)
  have ok: "send_refused (JNum 400)
              (JObj [(js ''message'', JStr (js ''Unexpected end of JSON input''))]) = None"
    by (rule send_accepted [OF _ stringify_malformed]) (simp add: status_accepted_def)
  show ?thesis
    using ne ok
    by (simp add: handle_request_def
          error_middleware_with_eq [OF malformed_props, where json = original_res_json]
          original_res_json_def js_or_def widgets_request_def)
qed

lemma not_found_props:
  "get_prop not_found_error (js ''status'') = Inr (JNum 404)"
  "get_prop not_found_error (js ''message'') = Inr (JStr (js ''not found''))"
  "get_prop not_found_error (js ''stack'') =
     Inr (JStr (js ''Error: not found at lookup (routes.ts:41:11)''))"
  by (simp_all add: not_found_error_def js_simps)

lemma conflicting_props:
  "get_prop conflicting_error (js ''status'') = Inr (JNum 404)"
  "get_prop conflicting_error (js ''statusCode'') = Inr (JNum 503)"
  "get_prop conflicting_error (js ''message'') = Inr (JStr (js ''gone''))"
  by (simp_all add: conflicting_error_def js_simps)

lemma falsy_props:
  "get_prop falsy_error (js ''status'') = Inr (JNum 0)"
  "get_prop falsy_error (js ''statusCode'') = Inr JUndefined"
  "get_prop falsy_error (js ''message'') = Inr (JStr [])"
  by (simp_all add: falsy_error_def js_simps)

text \<open>
  C3. For every error value whose \<open>status\<close> is 404 and whose \<open>message\<close> is
  \<open>not found\<close>, the error middleware sets the response status to 404 and sends the
  object with the single field \<open>message\<close>, which serializes to exactly
  \<open>{"message":"not found"}\<close>; the stack, the URL and the method appear only in what it
  prints on the console.
\<close>

theorem not_found_response:
  assumes "get_prop err (js ''status'') = Inr (JNum 404)"
      and "get_prop err (js ''message'') = Inr (JStr (js ''not found''))"
  shows \<open>\<exists>stack.
     get_prop err (js ''stack'') = Inr stack
     \<and> error_middleware err req c =
        Inr (c\<lparr>capturedJsonResponse := JObj [(js ''message'', JStr (js ''not found''))]\<rparr>,
             [ConsoleError (js ''Server error:'')
                (JObj [(js ''status'', JNum 404), (js ''message'', JStr (js ''not found'')),
                       (js ''stack'', stack), (js ''url'', JStr (url req)),
                       (js ''method'', JStr (method req))]),
              ResStatus (JNum 404),
              OriginalResJson (JObj [(js ''message'', JStr (js ''not found''))])])
     \<and> JSON_stringify (JObj [(js ''message'', JStr (js ''not found''))]) =
        Inr (Some (js ''{"message":"not found"}''))\<close>
proof -
  obtain sc where sc: "get_prop err (js ''statusCode'') = Inr sc"
    using get_prop_total [OF assms(1)] by blast
  obtain stack where stack: "get_prop err (js ''stack'') = Inr stack"
    using get_prop_total [OF assms(1)] by blast
  have ne: "JStr (js ''not found'') \<noteq> JStr []" by (simp add: js_simps)
  have ok: "send_refused (JNum 404) (JObj [(js ''message'', JStr (js ''not found''))]) = None"
    by (rule send_accepted [OF _ stringify_not_found]) (simp add: status_accepted_def)
  have "error_middleware err req c =
        Inr (c\<lparr>capturedJsonResponse := JObj [(js ''message'', JStr (js ''not found''))]\<rparr>,
             [ConsoleError (js ''Server error:'')
                (JObj [(js ''status'', JNum 404), (js ''message'', JStr (js ''not found'')),
                       (js ''stack'', stack), (js ''url'', JStr (url req)),
                       (js ''method'', JStr (method req))]),
              ResStatus (JNum 404),
              OriginalResJson (JObj [(js ''message'', JStr (js ''not found''))])])"
    using ne ok by (simp add: error_middleware_eq [OF assms(1) sc assms(2) stack] js_or_def)
  with stack stringify_not_found show ?thesis by blast
qed

theorem not_found_response_witness:
  \<open>get_prop not_found_error (js ''status'') = Inr (JNum 404)
   \<and> get_prop not_found_error (js ''message'') = Inr (JStr (js ''not found''))
   \<and> error_middleware not_found_error widgets_request
        \<lparr>start = 1000, capturedJsonResponse = JUndefined\<rparr> =
      Inr (\<lparr>start = 1000,
            capturedJsonResponse = JObj [(js ''message'', JStr (js ''not found''))]\<rparr>,
           [ConsoleError (js ''Server error:'')
              (JObj [(js ''status'', JNum 404), (js ''message'', JStr (js ''not found'')),
                     (js ''stack'', JStr (js ''Error: not found at lookup (routes.ts:41:11)'')),
                     (js ''url'', JStr (js ''/api/widgets'')),
                     (js ''method'', JStr (js ''POST''))]),
            ResStatus (JNum 404),
            OriginalResJson (JObj [(js ''message'', JStr (js ''not found''))])])\<close>
  using not_found_response [OF not_found_props(1,2), of widgets_request
          "\<lparr>start = 1000, capturedJsonResponse = JUndefined\<rparr>"]
        not_found_props
  by (auto simp: widgets_request_def)

text \<open>
  C4. For every error value that has no \<open>status\<close>, no \<open>statusCode\<close> and no \<open>message\<close>,
  the error middleware sets the response status to 500 and sends the object whose single
  field \<open>message\<close> is \<open>Internal Server Error\<close>.
\<close>

theorem bare_error_response:
  assumes "get_prop err (js ''status'') = Inr JUndefined"
      and "get_prop err (js ''statusCode'') = Inr JUndefined"
      and "get_prop err (js ''message'') = Inr JUndefined"
  shows \<open>\<exists>stack.
     get_prop err (js ''stack'') = Inr stack
     \<and> error_middleware err req c =
        Inr (c\<lparr>capturedJsonResponse :=
                 JObj [(js ''message'', JStr (js ''Internal Server Error''))]\<rparr>,
             [ConsoleError (js ''Server error:'')
                (JObj [(js ''status'', JNum 500), (js ''message'', JUndefined),
                       (js ''stack'', stack), (js ''url'', JStr (url req)),
                       (js ''method'', JStr (method req))]),
              ResStatus (JNum 500),
              OriginalResJson (JObj [(js ''message'', JStr (js ''Internal Server Error''))])])
     \<and> JSON_stringify (JObj [(js ''message'', JStr (js ''Internal Server Error''))]) =
        Inr (Some (js ''{"message":"Internal Server Error"}''))\<close>
proof -
  obtain stack where stack: "get_prop err (js ''stack'') = Inr stack"
    using get_prop_total [OF assms(1)] by blast
  have ok: "send_refused (JNum 500)
              (JObj [(js ''message'', JStr (js ''Internal Server Error''))]) = None"
    by (rule send_accepted [OF _ stringify_internal]) (simp add: status_accepted_def)
  have "error_middleware err req c =
        Inr (c\<lparr>capturedJsonResponse :=
                 JObj [(js ''message'', JStr (js ''Internal Server Error''))]\<rparr>,
             [ConsoleError (js ''Server error:'')
                (JObj [(js ''status'', JNum 500), (js ''message'', JUndefined),
                       (js ''stack'', stack), (js ''url'', JStr (url req)),
                       (js ''method'', JStr (method req))]),
              ResStatus (JNum 500),
              OriginalResJson (JObj [(js ''message'', JStr (js ''Internal Server Error''))])])"
    using ok by (simp add: error_middleware_eq [OF assms stack] js_or_def)
  with stack stringify_internal show ?thesis by blast
qed

theorem bare_error_response_witness:
  \<open>get_prop (JObj []) (js ''status'') = Inr JUndefined
   \<and> get_prop (JObj []) (js ''statusCode'') = Inr JUndefined
   \<and> get_prop (JObj []) (js ''message'') = Inr JUndefined
   \<and> error_middleware (JObj []) widgets_request
        \<lparr>start = 1000, capturedJsonResponse = JUndefined\<rparr> =
      Inr (\<lparr>start = 1000,
            capturedJsonResponse = JObj [(js ''message'', JStr (js ''Internal Server Error''))]\<rparr>,
           [ConsoleError (js ''Server error:'')
              (JObj [(js ''status'', JNum 500), (js ''message'', JUndefined),
                     (js ''stack'', JUndefined),
                     (js ''url'', JStr (js ''/api/widgets'')),
                     (js ''method'', JStr (js ''POST''))]),
            ResStatus (JNum 500),
            OriginalResJson (JObj [(js ''message'', JStr (js ''Internal Server Error''))])])\<close>
proof -
  have p: "get_prop (JObj []) (js ''status'') = Inr JUndefined"
          "get_prop (JObj []) (js ''statusCode'') = Inr JUndefined"
          "get_prop (JObj []) (js ''message'') = Inr JUndefined"
    by simp_all
  from bare_error_response [OF p, of widgets_request
          "\<lparr>start = 1000, capturedJsonResponse = JUndefined\<rparr>"] p
  show ?thesis
    by (auto simp: widgets_request_def)
qed

text \<open>
  C10. Whenever the response object accepts what the middleware hands it (a status that
  is an integer from 100 to 999 and a message that can be serialized): the status sent is
  \<open>err.status\<close> when that is truthy, whatever \<open>err.statusCode\<close> is; a falsy \<open>status\<close>
  counts as absent, so the status is then \<open>err.statusCode\<close> when that is truthy and 500
  otherwise. The message sent is \<open>err.message\<close> when that is truthy and
  \<open>Internal Server Error\<close> otherwise.
\<close>

theorem status_message_resolution:
  assumes "get_prop err (js ''status'') = Inr st"
      and "get_prop err (js ''statusCode'') = Inr sc"
      and "get_prop err (js ''message'') = Inr msg"
      and "status = (if truthy st then st else if truthy sc then sc else JNum 500)"
      and "message = (if truthy msg then msg else JStr (js ''Internal Server Error''))"
      and "status_accepted status"
      and "JSON_stringify (JObj [(js ''message'', message)]) = Inr text"
  shows "\<exists>c1 diag.
     error_middleware err req c =
       Inr (c1,
            [ConsoleError (js ''Server error:'') diag,
             ResStatus status,
             OriginalResJson (JObj [(js ''message'', message)])])"
proof -
  obtain stack where stack: "get_prop err (js ''stack'') = Inr stack"
    using get_prop_total [OF assms(1)] by blast
  have s: "js_or (js_or st sc) (JNum 500) = status"
    using assms(4) by (simp add: js_or_def)
  have m: "js_or msg (JStr (js ''Internal Server Error'')) = message"
    using assms(5) by (simp add: js_or_def)
  have ok: "send_refused (js_or (js_or st sc) (JNum 500))
              (JObj [(js ''message'', js_or msg (JStr (js ''Internal Server Error'')))]) = None"
    unfolding s m by (rule send_accepted [OF assms(6,7)])
  show ?thesis
    by (simp add: error_middleware_eq [OF assms(1-3) stack ok] s m)
qed

theorem status_message_resolution_witness:
  \<open>get_prop conflicting_error (js ''status'') = Inr (JNum 404)
   \<and> get_prop conflicting_error (js ''statusCode'') = Inr (JNum 503)
   \<and> status_accepted (JNum 404)
   \<and> JSON_stringify (JObj [(js ''message'', JStr (js ''gone''))]) =
       Inr (Some (js ''{"message":"gone"}''))
   \<and> (\<exists>c1 diag. error_middleware conflicting_error widgets_request
          \<lparr>start = 1000, capturedJsonResponse = JUndefined\<rparr> =
        Inr (c1, [ConsoleError (js ''Server error:'') diag, ResStatus (JNum 404),
                  OriginalResJson (JObj [(js ''message'', JStr (js ''gone''))])]))
   \<and> get_prop falsy_error (js ''status'') = Inr (JNum 0)
   \<and> get_prop falsy_error (js ''message'') = Inr (JStr [])
   \<and> status_accepted (JNum 500)
   \<and> (\<exists>c1 diag. error_middleware falsy_error widgets_request
          \<lparr>start = 1000, capturedJsonResponse = JUndefined\<rparr> =
        Inr (c1, [ConsoleError (js ''Server error:'') diag, ResStatus (JNum 500),
                  OriginalResJson (JObj [(js ''message'', JStr (js ''Internal Server Error''))])]))\<close>
proof -
  have g: "truthy (JStr (js ''gone''))" by (simp add: js_simps)
  have sg: \<open>JSON_stringify (JObj [(js ''message'', JStr (js ''gone''))]) =
             Inr (Some (js ''{"message":"gone"}''))\<close>
    by (simp add: eval_defs)
  have a4: "status_accepted (JNum 404)" and a5: "status_accepted (JNum 500)"
    by (simp_all add: status_accepted_def)
  have s1: "JNum 404 = (if truthy (JNum 404) then JNum 404
                         else if truthy (JNum 503) then JNum 503 else JNum 500)"
    by simp
  have m1: "JStr (js ''gone'') = (if truthy (JStr (js ''gone'')) then JStr (js ''gone'')
                                  else JStr (js ''Internal Server Error''))"
    using g by simp
  have s2: "JNum 500 = (if truthy (JNum 0) then JNum 0
                         else if truthy JUndefined then JUndefined else JNum 500)"
    by simp
  have m2: "JStr (js ''Internal Server Error'') =
              (if truthy (JStr []) then JStr [] else JStr (js ''Internal Server Error''))"
    by simp
  from status_message_resolution [OF conflicting_props s1 m1 a4 sg, of widgets_request
          "\<lparr>start = 1000, capturedJsonResponse = JUndefined\<rparr>"]
       status_message_resolution [OF falsy_props s2 m2 a5 stringify_internal, of widgets_request
          "\<lparr>start = 1000, capturedJsonResponse = JUndefined\<rparr>"]
       conflicting_props falsy_props a4 a5 sg
  show ?thesis by blast
qed

section \<open>Properties of the request logging middleware\<close>

lemma handler_calls_eq:
  "handler_calls c bodies =
     (c\<lparr>capturedJsonResponse := last (capturedJsonResponse c # bodies)\<rparr>,
      map OriginalResJson bodies)"
proof (induction bodies arbitrary: c)
  case Nil
  show ?case by simp
next
  case (Cons b bs)
  show ?case by (simp add: res_json_def Cons.IH)
qed

lemma observe_eq:
  "observe req t0 bodies statusCode t1 =
     ((if str_includes (path req) (js ''/api/amenities/sick-food'')
       then [ConsoleLog (trace_text req)] else []) @ map OriginalResJson bodies,
      on_finish req \<lparr>start = t0, capturedJsonResponse = last (JUndefined # bodies)\<rparr>
        statusCode t1)"
  by (simp add: observe_def middleware_def handler_calls_eq)

lemma on_finish_api:
  assumes "startsWith (path req) (js ''/api'')"
  shows "on_finish req c statusCode now =
     (case body_segment (capturedJsonResponse c) of
        Inl e \<Rightarrow> Inl e
      | Inr seg \<Rightarrow>
          Inr [Log (truncate_line (base_line req statusCode (now - start c) @ seg
                      @ id_segment (requestId req)))])"
  using assms by (simp add: on_finish_def)

lemma on_finish_other:
  assumes "\<not> startsWith (path req) (js ''/api'')"
  shows "on_finish req c statusCode now = Inr []"
  using assms by (simp add: on_finish_def)

lemma widgets_api: "startsWith (path widgets_request) (js ''/api'')"
  by (simp add: widgets_request_def eval_defs)

lemma count_api: "startsWith (path count_request) (js ''/api'')"
  by (simp add: count_request_def eval_defs)

lemma sick_api: "startsWith (path sick_food_request) (js ''/api'')"
  by (simp add: sick_food_request_def eval_defs)

lemma mirror_not_api: "\<not> startsWith (path mirror_request) (js ''/api'')"
  by (simp add: mirror_request_def eval_defs)

lemma sick_traced: "str_includes (path sick_food_request) (js ''/api/amenities/sick-food'')"
  by (simp add: sick_food_request_def eval_defs)

lemma mirror_traced: "str_includes (path mirror_request) (js ''/api/amenities/sick-food'')"
  by (simp add: mirror_request_def eval_defs)

lemma widgets_not_traced:
  "\<not> str_includes (path widgets_request) (js ''/api/amenities/sick-food'')"
  by (simp add: widgets_request_def eval_defs)

lemma sick_trace_text:
  "trace_text sick_food_request =
     [0xD83D, 0xDD0D] @ js '' [REQUEST-TRACE] Sick food request - Origin: undefined, User-Agent: curl/8.0...''"
  by (simp add: trace_text_def sick_food_request_def template_def js_simps)

lemma mirror_trace_text:
  "trace_text mirror_request =
     [0xD83D, 0xDD0D] @ js '' [REQUEST-TRACE] Sick food request - Origin: undefined, User-Agent: curl/8.0...''"
  by (simp add: trace_text_def mirror_request_def template_def js_simps)

lemma stringify_id7: \<open>JSON_stringify (JObj [(js ''id'', JNum 7)]) = Inr (Some (js ''{"id":7}''))\<close>
  by (simp add: eval_defs)

lemma stringify_long: \<open>JSON_stringify long_body =
   Inr (Some (js ''{"id":7,"name":"a widget with a deliberately long descriptive name","tags":["alpha","beta"]}''))\<close>
  by (simp add: long_body_def eval_defs)

text \<open>
  C7. Every line the \<open>finish\<close> listener gives to the log sink is the assembled line
  (method, path, status, duration, then the body segment, then the request-id segment)
  cut once, as a whole: when the assembled line is longer than 100 code units the line is
  its first 99 code units followed by the one-unit ellipsis, otherwise it is the assembled
  line unchanged; so the line is never longer than 100. No field is cut on its own.
\<close>

theorem log_line_truncation:
  assumes "on_finish req c statusCode now = Inr effs" and "Log line \<in> set effs"
  shows "\<exists>seg. body_segment (capturedJsonResponse c) = Inr seg
           \<and> effs = [Log line]
           \<and> (let assembled = base_line req statusCode (now - start c) @ seg
                                 @ id_segment (requestId req)
              in (100 < length assembled \<longrightarrow> line = take 99 assembled @ [ellipsis])
               \<and> (length assembled \<le> 100 \<longrightarrow> line = assembled))
           \<and> length line \<le> 100"
proof (cases "startsWith (path req) (js ''/api'')")
  case False
  with assms show ?thesis by (simp add: on_finish_other)
next
  case True
  show ?thesis
  proof (cases "body_segment (capturedJsonResponse c)")
    case (Inl e)
    with True assms show ?thesis by (simp add: on_finish_api)
  next
    case (Inr seg)
    with True assms(1) have
      "effs = [Log (truncate_line (base_line req statusCode (now - start c) @ seg
                      @ id_segment (requestId req)))]"
      by (simp add: on_finish_api)
    with assms(2) Inr show ?thesis
      by (auto simp: truncate_line_def Let_def)
  qed
qed

theorem log_line_truncation_witness:
  \<open>on_finish widgets_request \<lparr>start = 1000, capturedJsonResponse = long_body\<rparr> 201 1012 =
     Inr [Log (js ''POST /api/widgets 201 in 12ms :: {"id":7,"name":"a widget with a deliberately long descriptive name'' @ [ellipsis])]
   \<and> length (js ''POST /api/widgets 201 in 12ms :: {"id":7,"name":"a widget with a deliberately long descriptive name'' @ [ellipsis]) = 100\<close>
proof -
  let ?c = "\<lparr>start = 1000, capturedJsonResponse = long_body\<rparr>"
  let ?l = \<open>js ''POST /api/widgets 201 in 12ms :: {"id":7,"name":"a widget with a deliberately long descriptive name'' @ [ellipsis]\<close>
  have tl: "truthy long_body" by (simp add: long_body_def)
  have seg: \<open>body_segment long_body = Inr (js '' :: {"id":7,"name":"a widget with a deliberately long descriptive name","tags":["alpha","beta"]}'')\<close>
    by (simp add: body_segment_def tl stringify_long template_def js_append)
  have ev: "on_finish widgets_request ?c 201 1012 = Inr [Log ?l]"
    using widgets_api
    by (simp add: on_finish_api seg base_line_def id_segment_def truncate_line_def
          widgets_request_def eval_defs)
  have m: "Log ?l \<in> set [Log ?l]" by simp
  from log_line_truncation [OF ev m] have "length ?l \<le> 100" by blast
  moreover have "length ?l = 100" by (simp add: js_def)
  ultimately show ?thesis using ev by simp
qed

text \<open>
  C2, as the code has it. The \<open>finish\<close> listener calls \<open>JSON.stringify\<close> on a truthy
  captured body with nothing around it to catch a failure: for a request under \<open>/api\<close>
  whose captured body is truthy and fails to serialize, the error leaves the listener and
  no log line is written.
\<close>

theorem serialization_failure_propagates:
  assumes "startsWith (path req) (js ''/api'')"
      and "truthy (capturedJsonResponse c)"
      and "JSON_stringify (capturedJsonResponse c) = Inl e"
  shows "on_finish req c statusCode now = Inl e"
  using assms by (simp add: on_finish_api body_segment_def)

theorem serialization_failure_propagates_witness:
  "startsWith (path widgets_request) (js ''/api'')
   \<and> truthy (JObj [(js ''total'', JBigInt 1)])
   \<and> JSON_stringify (JObj [(js ''total'', JBigInt 1)]) = Inl TypeError
   \<and> on_finish widgets_request
        \<lparr>start = 1000, capturedJsonResponse = JObj [(js ''total'', JBigInt 1)]\<rparr> 200 1012 =
      Inl TypeError"
proof -
  let ?c = "\<lparr>start = 1000, capturedJsonResponse = JObj [(js ''total'', JBigInt 1)]\<rparr>"
  have t: "truthy (capturedJsonResponse ?c)" by simp
  have s: "JSON_stringify (capturedJsonResponse ?c) = Inl TypeError" by simp
  from serialization_failure_propagates [OF widgets_api t s, of 200 1012] widgets_api
  show ?thesis by simp
qed

text \<open>
  C2 as stated fails: with the captured body \<open>{total: 1n}\<close> the listener raises the
  \<open>TypeError\<close> instead of writing a line without the body segment.
\<close>

theorem serialization_failure_counterexample:
  "on_finish widgets_request
     \<lparr>start = 1000, capturedJsonResponse = JObj [(js ''total'', JBigInt 1)]\<rparr> 200 1012 =
   Inl TypeError"
  using widgets_api by (simp add: on_finish_api body_segment_def)

text \<open>
  C5, as the code has it. For a request under \<open>/api\<close> that reaches the logging
  middleware (the body parsers before it accept it) and whose response finishes, with \<open>b\<close>
  the body last given to \<open>res.json\<close> (\<open>undefined\<close> when there was no call) and
  \<open>JSON.stringify\<close> not failing on a truthy \<open>b\<close>, the one line logged is
  \<open>METHOD PATH STATUS in DURATIONms\<close>, then \<open> :: \<close> and the serialized body exactly when
  \<open>b\<close> is truthy, then the request id in brackets exactly when the \<open>x-request-id\<close> header
  is a non-empty string, the whole cut to 100 code units.
\<close>

theorem log_line_assembly:
  assumes "startsWith (path req) (js ''/api'')"
      and "b = last (JUndefined # bodies)"
      and "truthy b \<longrightarrow> JSON_stringify b = Inr r"
  shows "snd (handle_request req BodyAccepted t0 bodies statusCode t1) =
     Inr [Log (truncate_line
       (method req @ js '' '' @ path req @ js '' '' @ number_to_string statusCode
          @ js '' in '' @ number_to_string (t1 - t0) @ js ''ms''
          @ (if truthy b then js '' :: '' @ template r else [])
          @ (case requestId req of
               None \<Rightarrow> []
             | Some i \<Rightarrow> if i \<noteq> [] then js '' ['' @ i @ js '']'' else [])))]"
  using assms
  by (simp add: handle_request_def observe_eq on_finish_api body_segment_def base_line_def id_segment_def)

theorem log_line_assembly_witness:
  \<open>startsWith (path widgets_request) (js ''/api'')
   \<and> JSON_stringify (JObj [(js ''id'', JNum 7)]) = Inr (Some (js ''{"id":7}''))
   \<and> snd (handle_request widgets_request BodyAccepted 1000 [JObj [(js ''id'', JNum 7)]] 201 1012) =
       Inr [Log (js ''POST /api/widgets 201 in 12ms :: {"id":7} [abc123]'')]\<close>
proof -
  have b: "JObj [(js ''id'', JNum 7)] = last (JUndefined # [JObj [(js ''id'', JNum 7)]])"
    by simp
  have s: "truthy (JObj [(js ''id'', JNum 7)]) \<longrightarrow>
             JSON_stringify (JObj [(js ''id'', JNum 7)]) = Inr (Some (js ''{\"id\":7}''))"
    using stringify_id7 by simp
  show ?thesis
    using log_line_assembly [OF widgets_api b s, of 1000 201 1012] widgets_api stringify_id7
    by (simp add: widgets_request_def template_def truncate_line_def eval_defs)
qed

text \<open>
  C5 as stated fails: a handler answers \<open>res.json(0)\<close> to a request that carries an
  \<open>x-request-id\<close> header with an empty value. A body was captured and the header was
  supplied, but the line has neither segment.
\<close>

theorem log_line_assembly_counterexample:
  "snd (handle_request count_request BodyAccepted 1000 [JNum 0] 200 1005) = Inr [Log (js ''GET /api/count 200 in 5ms'')]
   \<and> snd (handle_request count_request BodyAccepted 1000 [JNum 0] 200 1005) \<noteq>
       Inr [Log (js ''GET /api/count 200 in 5ms :: 0 []'')]
   \<and> JSON_stringify (JNum 0) = Inr (Some (js ''0''))
   \<and> requestId count_request = Some []"
  using count_api
  by (simp add: handle_request_def observe_eq on_finish_api body_segment_def base_line_def id_segment_def
        truncate_line_def count_request_def eval_defs)

text \<open>
  C8, as the code has it. For a request under \<open>/api\<close> whose handler called \<open>res.json\<close>:
  when the last body is truthy and \<open>JSON.stringify\<close> renders it as the text \<open>t\<close>, the
  logged line is the assembled line containing \<open> :: \<close> followed by \<open>t\<close>, cut to 100 code
  units; when the last body is falsy (\<open>null\<close>, \<open>false\<close>, \<open>0\<close>, the empty string,
  \<open>undefined\<close>) the line has no body segment.
\<close>

theorem captured_body_in_log_line:
  assumes "startsWith (path req) (js ''/api'')" and "bodies \<noteq> []"
  shows "(truthy (last bodies) \<longrightarrow> JSON_stringify (last bodies) = Inr (Some t) \<longrightarrow>
            snd (observe req t0 bodies statusCode t1) =
              Inr [Log (truncate_line (base_line req statusCode (t1 - t0) @ js '' :: '' @ t
                          @ id_segment (requestId req)))])
       \<and> (\<not> truthy (last bodies) \<longrightarrow>
            snd (observe req t0 bodies statusCode t1) =
              Inr [Log (truncate_line (base_line req statusCode (t1 - t0)
                          @ id_segment (requestId req)))])"
  using assms
  by (simp add: observe_eq on_finish_api body_segment_def template_def)

theorem captured_body_in_log_line_witness:
  \<open>startsWith (path widgets_request) (js ''/api'')
   \<and> [JObj [(js ''id'', JNum 7)]] \<noteq> []
   \<and> truthy (last [JObj [(js ''id'', JNum 7)]])
   \<and> JSON_stringify (last [JObj [(js ''id'', JNum 7)]]) = Inr (Some (js ''{"id":7}''))
   \<and> snd (observe widgets_request 1000 [JObj [(js ''id'', JNum 7)]] 201 1012) =
       Inr [Log (js ''POST /api/widgets 201 in 12ms :: {"id":7} [abc123]'')]
   \<and> snd (observe widgets_request 1000 [JBool False] 201 1012) =
       Inr [Log (js ''POST /api/widgets 201 in 12ms [abc123]'')]\<close>
proof -
  have ne: "[JObj [(js ''id'', JNum 7)]] \<noteq> []" "[JBool False] \<noteq> []" by simp_all
  have line1: \<open>truncate_line (base_line widgets_request 201 (1012 - 1000) @ js '' :: '' @ js ''{"id":7}''
                 @ id_segment (requestId widgets_request)) =
               js ''POST /api/widgets 201 in 12ms :: {"id":7} [abc123]''\<close>
    by (simp add: base_line_def id_segment_def truncate_line_def widgets_request_def eval_defs)
  have line2: \<open>truncate_line (base_line widgets_request 201 (1012 - 1000)
                 @ id_segment (requestId widgets_request)) =
               js ''POST /api/widgets 201 in 12ms [abc123]''\<close>
    by (simp add: base_line_def id_segment_def truncate_line_def widgets_request_def eval_defs)
  from captured_body_in_log_line [OF widgets_api ne(1), of \<open>js ''{"id":7}''\<close> 1000 201 1012]
       captured_body_in_log_line [OF widgets_api ne(2), of "[]" 1000 201 1012]
       widgets_api stringify_id7 line1 line2
  show ?thesis by simp
qed

text \<open>
  C8 as stated fails: after \<open>res.json(null)\<close> the serialized body \<open>null\<close> is nowhere in
  the line.
\<close>

theorem captured_body_counterexample:
  "snd (observe widgets_request 1000 [JNull] 200 1005) =
     Inr [Log (js ''POST /api/widgets 200 in 5ms [abc123]'')]
   \<and> JSON_stringify JNull = Inr (Some (js ''null''))
   \<and> \<not> str_includes (js ''POST /api/widgets 200 in 5ms [abc123]'') (js ''null'')"
  using widgets_api
  by (simp add: observe_eq on_finish_api body_segment_def base_line_def id_segment_def
        truncate_line_def widgets_request_def eval_defs)

text \<open>
  C6, as the code has it. For a request that reaches the logging middleware (the body
  parsers before it accept it): before the response finishes nothing goes to the log sink;
  when it finishes, a request whose path starts with \<open>/api\<close> and whose captured body is
  falsy or serializes without failing gets exactly one line in the log sink, and a request
  whose path does not start with \<open>/api\<close> gets none; apart from the log sink, a request
  whose path contains \<open>/api/amenities/sick-food\<close> gets one trace line on the console when
  it enters the middleware, whether or not its path starts with \<open>/api\<close>. A request the
  body parsers reject never reaches the logging middleware: whatever its path, it gets no
  line in the log sink and no trace line, and nothing is done when its response finishes.
\<close>

theorem summary_line_at_finish:
  assumes "b = last (JUndefined # bodies)"
  shows "filter is_Log (fst (handle_request req BodyAccepted t0 bodies statusCode t1)) = []
       \<and> filter is_console (fst (handle_request req BodyAccepted t0 bodies statusCode t1)) =
           (if str_includes (path req) (js ''/api/amenities/sick-food'')
            then [ConsoleLog (trace_text req)] else [])
       \<and> (startsWith (path req) (js ''/api'') \<longrightarrow> (truthy b \<longrightarrow> JSON_stringify b = Inr r) \<longrightarrow>
            (\<exists>line. snd (handle_request req BodyAccepted t0 bodies statusCode t1) = Inr [Log line]))
       \<and> (\<not> startsWith (path req) (js ''/api'') \<longrightarrow>
            snd (handle_request req BodyAccepted t0 bodies statusCode t1) = Inr [])
       \<and> filter is_Log (fst (handle_request req (BodyRejected err) t0 bodies statusCode t1)) = []
       \<and> filter is_ConsoleLog
             (fst (handle_request req (BodyRejected err) t0 bodies statusCode t1)) = []
       \<and> snd (handle_request req (BodyRejected err) t0 bodies statusCode t1) = Inr []"
proof -
  have f: "filter is_Log (map OriginalResJson bodies) = []"
          "filter is_console (map OriginalResJson bodies) = []"
    by (induction bodies) simp_all
  show ?thesis
    using assms
    by (simp add: handle_request_rejected)
       (simp add: handle_request_def observe_eq f on_finish_api on_finish_other body_segment_def)
qed

theorem summary_line_at_finish_witness:
  "filter is_Log (fst (handle_request widgets_request BodyAccepted 1000 [JNull] 200 1005)) = []
   \<and> filter is_console (fst (handle_request widgets_request BodyAccepted 1000 [JNull] 200 1005)) = []
   \<and> startsWith (path widgets_request) (js ''/api'')
   \<and> (\<exists>line. snd (handle_request widgets_request BodyAccepted 1000 [JNull] 200 1005) = Inr [Log line])
   \<and> \<not> startsWith (path mirror_request) (js ''/api'')
   \<and> snd (handle_request mirror_request BodyAccepted 1000 [] 200 1005) = Inr []
   \<and> filter is_console (fst (handle_request mirror_request BodyAccepted 1000 [] 200 1005)) =
       [ConsoleLog (trace_text mirror_request)]
   \<and> filter is_Log
         (fst (handle_request widgets_request (BodyRejected malformed_body_error) 1000 [] 400 1003)) = []
   \<and> snd (handle_request widgets_request (BodyRejected malformed_body_error) 1000 [] 400 1003) =
       Inr []"
proof -
  have b1: "JNull = last (JUndefined # [JNull])" by simp
  have b2: "JUndefined = last (JUndefined # [])" by simp
  from summary_line_at_finish [OF b1, of widgets_request 1000 200 1005 None JNull]
       summary_line_at_finish [OF b2, of mirror_request 1000 200 1005 None JNull]
       summary_line_at_finish [OF b2, of widgets_request 1000 400 1003 None malformed_body_error]
       widgets_api mirror_not_api mirror_traced widgets_not_traced
  show ?thesis by simp
qed

text \<open>
  C6 as stated fails on the traced route: the request to \<open>/api/amenities/sick-food\<close>
  produces two lines, one of them before the response has finished, and a request to
  \<open>/v1/api/amenities/sick-food\<close>, which is not under \<open>/api\<close>, produces one.
\<close>

theorem summary_line_counterexample:
  "handle_request sick_food_request BodyAccepted 1000 [] 200 1005 =
     ([ConsoleLog ([0xD83D, 0xDD0D] @
         js '' [REQUEST-TRACE] Sick food request - Origin: undefined, User-Agent: curl/8.0...'')],
      Inr [Log (js ''GET /api/amenities/sick-food 200 in 5ms'')])
   \<and> handle_request mirror_request BodyAccepted 1000 [] 200 1005 =
     ([ConsoleLog ([0xD83D, 0xDD0D] @
         js '' [REQUEST-TRACE] Sick food request - Origin: undefined, User-Agent: curl/8.0...'')],
      Inr [])"
proof -
  have l: "truncate_line (base_line sick_food_request 200 (1005 - 1000)
             @ id_segment (requestId sick_food_request)) =
           js ''GET /api/amenities/sick-food 200 in 5ms''"
    by (simp add: base_line_def id_segment_def truncate_line_def sick_food_request_def eval_defs)
  show ?thesis
    using sick_api mirror_not_api sick_traced mirror_traced l
    by (simp add: handle_request_def observe_eq on_finish_api on_finish_other body_segment_def
          sick_trace_text mirror_trace_text)
qed

section \<open>Properties of the listener start-up\<close>

lemma filter_listen_replicate_Log [simp]:
  "filter is_ServerListen (replicate n (Log l)) = []"
  by (induction n) simp_all

lemma listener_address_in_use:
  assumes "address_in_use out"
  shows "listener port cbs (out # script) =
           [ConsoleLog (retry_notice port), SetTimeout 1000, ServerClose, ServerListen port host]
             @ listener port (Suc cbs) script"
  using assms
  by (cases out) (auto simp: address_in_use_def server_on_error_def retry_callback_def)

lemma listener_not_in_use:
  assumes "\<not> address_in_use out"
  shows "filter is_ServerListen (listener port cbs (out # script)) = []"
proof (cases out)
  case Listening
  then show ?thesis by simp
next
  case (ErrorEvent err)
  with assms show ?thesis
    by (cases "get_prop err (js ''code'')")
       (auto simp: address_in_use_def server_on_error_def)
qed

lemma listens_listener:
  "length (filter is_ServerListen (listener port cbs script)) =
     length (takeWhile address_in_use script)"
proof (induction script arbitrary: cbs)
  case Nil
  show ?case by simp
next
  case (Cons out script)
  show ?case
  proof (cases "address_in_use out")
    case True
    then show ?thesis
      by (simp add: listener_address_in_use Cons.IH del: listener.simps)
  next
    case False
    then show ?thesis
      by (simp add: listener_not_in_use del: listener.simps)
  qed
qed

lemma number_to_string_5000: "number_to_string 5000 = js ''5000''"
  by (simp add: number_to_string_def digits.simps js_simps)

text \<open>
  C1, as the code has it. The \<open>error\<close> listener stays registered and counts nothing, so
  every address-in-use failure, the first and each later one, is answered the same way:
  the retry notice, a timer of 1000 ms, then \<open>close\<close> and one more \<open>listen\<close> on the same
  port and host. The number of retries of a run is therefore the number of consecutive
  address-in-use failures at its start, and it is not bounded by one.
\<close>

theorem retry_per_address_in_use:
  "(address_in_use out \<longrightarrow>
      listener port cbs (out # script) =
        [ConsoleLog (retry_notice port), SetTimeout 1000, ServerClose, ServerListen port host]
          @ listener port (Suc cbs) script)
   \<and> retries (startup port script) = length (takeWhile address_in_use script)"
  by (simp add: listener_address_in_use retries_def startup_def listens_listener
        del: listener.simps)

theorem retry_per_address_in_use_witness:
  "address_in_use (ErrorEvent (JObj [(js ''code'', JStr (js ''EADDRINUSE''))]))
   \<and> listener 5000 1 [ErrorEvent (JObj [(js ''code'', JStr (js ''EADDRINUSE''))]), Listening] =
       [ConsoleLog (js ''Port 5000 is busy, retrying in 1 second...''), SetTimeout 1000,
        ServerClose, ServerListen 5000 (js ''0.0.0.0''),
        Log (js ''serving on port 5000''), Log (js ''serving on port 5000'')]
   \<and> retries (startup 5000 [ErrorEvent (JObj [(js ''code'', JStr (js ''EADDRINUSE''))]), Listening]) = 1"
proof -
  let ?busy = "ErrorEvent (JObj [(js ''code'', JStr (js ''EADDRINUSE''))])"
  have busy: "address_in_use ?busy"
    by (simp add: address_in_use_def)
  have notice: "retry_notice 5000 = js ''Port 5000 is busy, retrying in 1 second...''"
    by (simp add: retry_notice_def number_to_string_5000 js_append)
  have serving: "serving_line 5000 = js ''serving on port 5000''"
    by (simp add: serving_line_def number_to_string_5000 js_append)
  have tail: "listener 5000 (Suc 1) [Listening] = [Log (serving_line 5000), Log (serving_line 5000)]"
    by (simp add: numeral_2_eq_2)
  have step: "listener 5000 1 [?busy, Listening] =
        [ConsoleLog (retry_notice 5000), SetTimeout 1000, ServerClose, ServerListen 5000 host]
          @ listener 5000 (Suc 1) [Listening]"
    using retry_per_address_in_use [of ?busy 5000 1 "[Listening]"] busy by blast
  have count: "retries (startup 5000 [?busy, Listening]) =
        length (takeWhile address_in_use [?busy, Listening])"
    using retry_per_address_in_use [of ?busy 5000 1 "[?busy, Listening]"] by blast
  have "\<not> address_in_use Listening"
    by (simp add: address_in_use_def)
  with busy count have c1: "retries (startup 5000 [?busy, Listening]) = 1"
    by simp
  show ?thesis
    unfolding step tail notice serving host_def using busy c1 by simp
qed

text \<open>
  C1 as stated fails: when the retry meets the address still in use, the listener retries
  again. Two address-in-use failures give two retries.
\<close>

theorem retry_bound_counterexample:
  "\<not> retries (startup 5000 [ErrorEvent (JObj [(js ''code'', JStr (js ''EADDRINUSE''))]),
                           ErrorEvent (JObj [(js ''code'', JStr (js ''EADDRINUSE''))])]) \<le> 1"
  by (simp add: retries_def startup_def server_on_error_def retry_callback_def)

text \<open>
  C9. When the error value of a failed \<open>listen\<close> has a \<open>code\<close> other than
  \<open>EADDRINUSE\<close>, the \<open>error\<close> listener prints the error on the console and does nothing
  else: no timer, no \<open>close\<close>, no further \<open>listen\<close>, and no exception leaves it, so the
  run ends there with the process alive and zero retries.
\<close>

theorem other_error_no_retry:
  assumes "get_prop err (js ''code'') = Inr code" and "code \<noteq> JStr (js ''EADDRINUSE'')"
  shows "server_on_error port err = Inr [ConsoleError (js ''Server error:'') err]
       \<and> listener port cbs (ErrorEvent err # script) = [ConsoleError (js ''Server error:'') err]
       \<and> retries (startup port (ErrorEvent err # script)) = 0"
  using assms by (simp add: server_on_error_def retries_def startup_def)

theorem other_error_no_retry_witness:
  "get_prop (JObj [(js ''code'', JStr (js ''EACCES''))]) (js ''code'') = Inr (JStr (js ''EACCES''))
   \<and> JStr (js ''EACCES'') \<noteq> JStr (js ''EADDRINUSE'')
   \<and> listener 80 1 [ErrorEvent (JObj [(js ''code'', JStr (js ''EACCES''))]), Listening] =
       [ConsoleError (js ''Server error:'') (JObj [(js ''code'', JStr (js ''EACCES''))])]
   \<and> retries (startup 80 [ErrorEvent (JObj [(js ''code'', JStr (js ''EACCES''))]), Listening]) = 0"
proof -
  have p: "get_prop (JObj [(js ''code'', JStr (js ''EACCES''))]) (js ''code'') =
             Inr (JStr (js ''EACCES''))"
    by simp
  have d: "JStr (js ''EACCES'') \<noteq> JStr (js ''EADDRINUSE'')"
    by (simp add: js_simps)
  from other_error_no_retry [OF p d, of 80 1 "[Listening]"] p d show ?thesis
    by blast
qed

end
